theory Spec2Isabelle
  imports Complex_Main "HOL-Library.Word"
begin

section \<open>Packet codec (network.py, class UDPPacket)\<close>

text \<open>
  A datagram is a list of bytes. Python's \<^verbatim>\<open>struct\<close> module is modelled for the three
  format codes the program uses, in network byte order without padding (the \<^verbatim>\<open>!\<close>
  prefix): \<^verbatim>\<open>H\<close> (unsigned 16 bit), \<^verbatim>\<open>B\<close> (unsigned 8 bit) and \<^verbatim>\<open>b\<close> (signed 8 bit).
  \<^verbatim>\<open>struct.pack\<close> raises \<^verbatim>\<open>struct.error\<close> on a value outside the range of its code
  and \<^verbatim>\<open>struct.unpack\<close> raises it on a buffer whose length is not the size of the
  format; every raise is a value \<open>Inl\<close> of the model.
\<close>

type_synonym byte = "8 word"

datatype exn = StructError | ValueError | AttributeError | OSError

datatype fmt = FmtH | FmtB | Fmtb

fun field_size :: "fmt \<Rightarrow> nat" where
  "field_size FmtH = 2"
| "field_size FmtB = 1"
| "field_size Fmtb = 1"

definition calcsize :: "fmt list \<Rightarrow> nat" where
  "calcsize fs = sum_list (map field_size fs)"

fun pack_field :: "fmt \<Rightarrow> int \<Rightarrow> exn + byte list" where
  "pack_field FmtH v =
     (if 0 \<le> v \<and> v \<le> 65535 then Inr [word_of_int (v div 256), word_of_int (v mod 256)]
      else Inl StructError)"
| "pack_field FmtB v =
     (if 0 \<le> v \<and> v \<le> 255 then Inr [word_of_int v] else Inl StructError)"
| "pack_field Fmtb v =
     (if - 128 \<le> v \<and> v \<le> 127 then Inr [word_of_int v] else Inl StructError)"

fun struct_pack :: "fmt list \<Rightarrow> int list \<Rightarrow> exn + byte list" where
  "struct_pack [] [] = Inr []"
| "struct_pack (f # fs) (v # vs) =
     (case pack_field f v of
        Inl e \<Rightarrow> Inl e
      | Inr bs \<Rightarrow> (case struct_pack fs vs of Inl e \<Rightarrow> Inl e | Inr rest \<Rightarrow> Inr (bs @ rest)))"
| "struct_pack _ _ = Inl StructError"

fun struct_unpack :: "fmt list \<Rightarrow> byte list \<Rightarrow> exn + int list" where
  "struct_unpack [] [] = Inr []"
| "struct_unpack (FmtH # fs) (hi # lo # rest) =
     (case struct_unpack fs rest of
        Inl e \<Rightarrow> Inl e
      | Inr vs \<Rightarrow> Inr ((uint hi * 256 + uint lo) # vs))"
| "struct_unpack (FmtB # fs) (c # rest) =
     (case struct_unpack fs rest of Inl e \<Rightarrow> Inl e | Inr vs \<Rightarrow> Inr (uint c # vs))"
| "struct_unpack (Fmtb # fs) (c # rest) =
     (case struct_unpack fs rest of Inl e \<Rightarrow> Inl e | Inr vs \<Rightarrow> Inr (sint c # vs))"
| "struct_unpack _ _ = Inl StructError"

text \<open>Python's slice \<^verbatim>\<open>data[a:b]\<close> for \<open>0 \<le> a \<le> b\<close>: total, shorter when the data ends.\<close>

definition slice :: "nat \<Rightarrow> nat \<Rightarrow> 'a list \<Rightarrow> 'a list" where
  "slice a b xs = take (b - a) (drop a xs)"

definition TYPE_HEARTBEAT :: int where
  "TYPE_HEARTBEAT = 0"

definition TYPE_MOUSE_ABSOLUTE :: int where
  "TYPE_MOUSE_ABSOLUTE = 1"

definition HEADER_FORMAT :: "fmt list" where
  "HEADER_FORMAT = [FmtH, FmtB]"

definition MOUSE_FORMAT :: "fmt list" where
  "MOUSE_FORMAT = [FmtH, FmtH, Fmtb, Fmtb, FmtB]"

definition HEADER_SIZE :: nat where
  "HEADER_SIZE = calcsize HEADER_FORMAT"

definition MOUSE_SIZE :: nat where
  "MOUSE_SIZE = calcsize MOUSE_FORMAT"

text \<open>
  The dictionary \<^verbatim>\<open>unpack\<close> returns has one of two shapes, told apart by its
  \<^verbatim>\<open>'type'\<close> entry: \<open>Heartbeat sequence\<close>, or
  \<open>MouseAbsolute sequence x y wheel_x wheel_y buttons\<close>.
\<close>

datatype packet = Heartbeat int | MouseAbsolute int int int int int int

definition pack_heartbeat :: "int \<Rightarrow> exn + byte list" where
  "pack_heartbeat sequence = struct_pack HEADER_FORMAT [sequence, TYPE_HEARTBEAT]"

definition pack_mouse_absolute ::
  "int \<Rightarrow> int \<Rightarrow> int \<Rightarrow> int \<Rightarrow> int \<Rightarrow> int \<Rightarrow> exn + byte list" where
  "pack_mouse_absolute sequence x y wheel_x wheel_y buttons =
     (case struct_pack HEADER_FORMAT [sequence, TYPE_MOUSE_ABSOLUTE] of
        Inl e \<Rightarrow> Inl e
      | Inr header \<Rightarrow>
          (case struct_pack MOUSE_FORMAT [x, y, wheel_x, wheel_y, buttons] of
             Inl e \<Rightarrow> Inl e
           | Inr payload \<Rightarrow> Inr (header @ payload)))"

text \<open>Tuple assignment from the result of \<^verbatim>\<open>struct.unpack\<close>: a wrong count raises.\<close>

fun header_fields :: "int list \<Rightarrow> exn + int \<times> int" where
  "header_fields [sequence, packet_type] = Inr (sequence, packet_type)"
| "header_fields _ = Inl ValueError"

fun mouse_fields :: "int \<Rightarrow> int list \<Rightarrow> exn + packet" where
  "mouse_fields sequence [x, y, wheel_x, wheel_y, buttons] =
     Inr (MouseAbsolute sequence x y wheel_x wheel_y buttons)"
| "mouse_fields sequence _ = Inl ValueError"

definition unpack :: "byte list \<Rightarrow> exn + packet option" where
  "unpack data =
     (if length data < HEADER_SIZE then Inr None
      else
        (case struct_unpack HEADER_FORMAT (slice 0 HEADER_SIZE data) of
           Inl e \<Rightarrow> Inl e
         | Inr hs \<Rightarrow>
             (case header_fields hs of
                Inl e \<Rightarrow> Inl e
              | Inr (sequence, packet_type) \<Rightarrow>
                  if packet_type = TYPE_HEARTBEAT then Inr (Some (Heartbeat sequence))
                  else if packet_type = TYPE_MOUSE_ABSOLUTE then
                    (if length data < HEADER_SIZE + MOUSE_SIZE then Inr None
                     else
                       (case struct_unpack MOUSE_FORMAT
                               (slice HEADER_SIZE (HEADER_SIZE + MOUSE_SIZE) data) of
                          Inl e \<Rightarrow> Inl e
                        | Inr ms \<Rightarrow>
                            (case mouse_fields sequence ms of
                               Inl e \<Rightarrow> Inl e
                             | Inr p \<Rightarrow> Inr (Some p))))
                  else Inr None)))"

section \<open>Peer connection (network.py, class PeerConnection)\<close>

text \<open>
  The object's fields, with the source's names. A socket field is \<open>None\<close> or a socket
  that is open or closed; a callback field records whether a callable was given (the
  code only tests it and calls it). Clock readings (\<^verbatim>\<open>time.time()\<close>) are real numbers.
  The thread handles are left out: each task is modelled on its own below.
\<close>

datatype sock = SockOpen | SockClosed

record peer_connection =
  peer_name :: string
  peer_address :: string
  tcp_port :: int
  udp_port :: int
  local_tcp_port :: int
  local_udp_port :: int
  username :: string
  on_mouse_data :: bool
  on_disconnect :: bool
  running :: bool
  connected :: bool
  tx_sequence :: int
  rx_packets :: int
  rx_bytes :: int
  last_tx_time :: real
  last_rx_time :: real
  tcp_socket :: "sock option"
  udp_socket :: "sock option"
  mouse_x :: int
  mouse_y :: int
  mouse_wheel_x :: int
  mouse_wheel_y :: int
  mouse_buttons :: int

definition PeerConnection ::
  "string \<Rightarrow> string \<Rightarrow> int \<Rightarrow> int \<Rightarrow> int \<Rightarrow> int \<Rightarrow> string \<Rightarrow> bool \<Rightarrow> bool \<Rightarrow> peer_connection" where
  "PeerConnection name address tcp udp local_tcp local_udp user mouse_cb disconnect_cb =
     \<lparr> peer_name = name, peer_address = address, tcp_port = tcp, udp_port = udp,
       local_tcp_port = local_tcp, local_udp_port = local_udp, username = user,
       on_mouse_data = mouse_cb, on_disconnect = disconnect_cb,
       running = False, connected = False,
       tx_sequence = 0, rx_packets = 0, rx_bytes = 0, last_tx_time = 0, last_rx_time = 0,
       tcp_socket = None, udp_socket = None,
       mouse_x = 0, mouse_y = 0, mouse_wheel_x = 0, mouse_wheel_y = 0, mouse_buttons = 0 \<rparr>"

text \<open>
  \<^verbatim>\<open>start\<close>: sets the running flag, creates the UDP socket and binds it to the local
  UDP port. The bind raises when the port is not a port number or when the operating
  system refuses it (\<open>bind_ok\<close> is the system's answer); the fields written before the
  raise keep their new values.
\<close>

definition start :: "bool \<Rightarrow> peer_connection \<Rightarrow> peer_connection \<times> exn option" where
  "start bind_ok p =
     (let p1 = p\<lparr>running := True, udp_socket := Some SockOpen\<rparr>
      in if bind_ok \<and> 0 \<le> local_udp_port p \<and> local_udp_port p \<le> 65535 then (p1, None)
         else (p1, Some OSError))"

definition stop :: "peer_connection \<Rightarrow> peer_connection" where
  "stop p =
     p\<lparr>running := False, connected := False,
       tcp_socket := map_option (\<lambda>_. SockClosed) (tcp_socket p),
       udp_socket := map_option (\<lambda>_. SockClosed) (udp_socket p)\<rparr>"

definition update_mouse_state ::
  "peer_connection \<Rightarrow> int \<Rightarrow> int \<Rightarrow> int \<Rightarrow> int \<Rightarrow> int \<Rightarrow> peer_connection" where
  "update_mouse_state p x y wheel_x wheel_y buttons =
     p\<lparr>mouse_x := x, mouse_y := y, mouse_wheel_x := wheel_x, mouse_wheel_y := wheel_y,
       mouse_buttons := buttons\<rparr>"

subsection \<open>UDP transmit task\<close>

text \<open>
  One pass through the body of the loop of \<^verbatim>\<open>_udp_transmit_loop\<close>. \<open>send_ok\<close> tells
  whether \<^verbatim>\<open>sendto\<close> returned, \<open>now\<close> is the clock reading after it. A raise of the
  packing or of the send is caught by the loop's handler, which only prints and sleeps.
  The result is the peer after the pass and the frame that went out, if one did.
\<close>

definition udp_transmit_step ::
  "bool \<Rightarrow> real \<Rightarrow> peer_connection \<Rightarrow> peer_connection \<times> byte list option" where
  "udp_transmit_step send_ok now p =
     (case pack_mouse_absolute (tx_sequence p) (mouse_x p) (mouse_y p)
             (mouse_wheel_x p) (mouse_wheel_y p) (mouse_buttons p) of
        Inl e \<Rightarrow> (p, None)
      | Inr packet \<Rightarrow>
          if send_ok
          then (p\<lparr>tx_sequence := (tx_sequence p + 1) mod 65536, last_tx_time := now\<rparr>,
                Some packet)
          else (p, None))"

text \<open>
  The loop, run against a script of what each pass meets: the value of the running flag
  at the loop test, the outcome of the send and the clock. It returns the peer and the
  frames sent, in order; a script that ends leaves the loop where it stands.
\<close>

fun udp_transmit_loop ::
  "(bool \<times> bool \<times> real) list \<Rightarrow> peer_connection \<Rightarrow> peer_connection \<times> byte list list" where
  "udp_transmit_loop [] p = (p, [])"
| "udp_transmit_loop ((still_running, send_ok, now) # script) p =
     (if \<not> still_running then (p, [])
      else
        (case udp_transmit_step send_ok now p of
           (p', sent) \<Rightarrow>
             (case udp_transmit_loop script p' of
                (p'', frames) \<Rightarrow>
                  (p'', (case sent of None \<Rightarrow> frames | Some f \<Rightarrow> f # frames)))))"

subsection \<open>Liveness task\<close>

text \<open>
  \<^verbatim>\<open>_check_liveness\<close> shares \<^verbatim>\<open>running\<close> and \<^verbatim>\<open>last_rx_time\<close> with the other tasks, so
  what one pass of its loop reads is given from outside: the running flag at the loop
  test, the clock after the sleep, and the three reads of \<^verbatim>\<open>last_rx_time\<close> in the order
  the pass makes them (the test and the subtraction of the conditional expression, then
  the guard of the \<^verbatim>\<open>if\<close>). The reads of \<^verbatim>\<open>last_tx_time\<close> only feed a value that is
  never used.
\<close>

record liveness_obs =
  obs_running :: bool
  obs_now :: real
  obs_rx_test :: real
  obs_rx_diff :: real
  obs_rx_guard :: real

text \<open>
  The loop over a script of passes. The result lists the peer names handed to the
  disconnect callback, in order, and tells whether the function has returned; a script
  that ends while the loop is still polling gives \<open>False\<close> there.
\<close>

fun check_liveness :: "peer_connection \<Rightarrow> liveness_obs list \<Rightarrow> string list \<times> bool" where
  "check_liveness p [] = ([], False)"
| "check_liveness p (ob # obs) =
     (if \<not> obs_running ob then ([], True)
      else
        (let time_since_rx = (if obs_rx_test ob > 0 then obs_now ob - obs_rx_diff ob else 999)
         in if obs_rx_guard ob > 0 \<and> time_since_rx > 2
            then ((if on_disconnect p then [peer_name p] else []), True)
            else check_liveness p obs))"

text \<open>
  A pass in which all three reads of \<^verbatim>\<open>last_rx_time\<close> see the value \<open>r\<close> (no receive
  falls into the pass), and the pass that sees the running flag set, the clock at \<open>now\<close>
  and \<^verbatim>\<open>last_rx_time\<close> at \<open>rx\<close>.
\<close>

definition last_rx_seen :: "liveness_obs \<Rightarrow> real \<Rightarrow> bool" where
  "last_rx_seen ob r \<longleftrightarrow> obs_rx_test ob = r \<and> obs_rx_diff ob = r \<and> obs_rx_guard ob = r"

definition poll :: "real \<Rightarrow> real \<Rightarrow> liveness_obs" where
  "poll now rx =
     \<lparr> obs_running = True, obs_now = now, obs_rx_test = rx, obs_rx_diff = rx, obs_rx_guard = rx \<rparr>"

subsection \<open>TCP control task\<close>

text \<open>
  \<^verbatim>\<open>_tcp_connect_and_sync\<close> as a machine that takes one step per interaction with its
  surroundings. The control points are the places where the function reads the shared
  running flag or calls the socket. What the surroundings answer at a step is a
  \<open>tcp_env\<close>: the value of the running flag, whether the socket call returned (or
  raised), the bytes a \<^verbatim>\<open>recv\<close> returned, and the clock.

  \<^verbatim>\<open>json.loads\<close> is library code; what line 236 observes of the decoded message is
  one of four cases, and the decoder is a parameter of the machine: no decode or a falsy
  value (the test fails), a dictionary (with or without the type \<^verbatim>\<open>handshake\<close>), or
  another truthy value (calling \<^verbatim>\<open>get\<close> on it raises AttributeError).

  Two counters that the code does not have record the history: the handshakes this task
  has sent and the handshake responses it has consumed.
\<close>

datatype tcp_pc =
  OuterTest | Connect | SendHandshake | ReadTest | Recv | SyncTest | SyncSend | Returned

datatype json_msg = JFalsy | JDict bool | JOther

record tcp_env =
  env_running :: bool
  env_ok :: bool
  env_chunk :: "byte list"
  env_now :: real

record tcp_task =
  pc :: tcp_pc
  peer :: peer_connection
  buffer :: "byte list"
  handshakes_sent :: nat
  responses_consumed :: nat

definition tcp_task_init :: "peer_connection \<Rightarrow> tcp_task" where
  "tcp_task_init p =
     \<lparr> pc = OuterTest, peer = p, buffer = [], handshakes_sent = 0, responses_consumed = 0 \<rparr>"

text \<open>The handler of the outer \<^verbatim>\<open>try\<close> (lines 252 to 264), then back to the loop test.\<close>

definition tcp_handler :: "tcp_task \<Rightarrow> tcp_task" where
  "tcp_handler s = s\<lparr>pc := OuterTest, peer := (peer s)\<lparr>connected := False, tcp_socket := None\<rparr>\<rparr>"

text \<open>\<^verbatim>\<open>line, buffer = buffer.split(b'\n', 1)\<close> for a buffer that holds a newline (byte 10).\<close>

definition split_line :: "byte list \<Rightarrow> byte list \<times> byte list" where
  "split_line buf = (takeWhile (\<lambda>c. c \<noteq> 10) buf, tl (dropWhile (\<lambda>c. c \<noteq> 10) buf))"

definition tcp_step :: "(byte list \<Rightarrow> json_msg) \<Rightarrow> tcp_env \<Rightarrow> tcp_task \<Rightarrow> tcp_task" where
  "tcp_step loads e s =
     (case pc s of
        OuterTest \<Rightarrow> if env_running e then s\<lparr>pc := Connect\<rparr> else s\<lparr>pc := Returned\<rparr>
      | Connect \<Rightarrow>
          if env_ok e then s\<lparr>pc := SendHandshake, peer := (peer s)\<lparr>tcp_socket := Some SockOpen\<rparr>\<rparr>
          else tcp_handler s
      | SendHandshake \<Rightarrow>
          if env_ok e
          then s\<lparr>pc := ReadTest, peer := (peer s)\<lparr>connected := True\<rparr>, buffer := [],
                 handshakes_sent := Suc (handshakes_sent s)\<rparr>
          else tcp_handler s
      | ReadTest \<Rightarrow> if env_running e then s\<lparr>pc := Recv\<rparr> else s\<lparr>pc := SyncTest\<rparr>
      | Recv \<Rightarrow>
          if \<not> env_ok e then tcp_handler s
          else if env_chunk e = [] then s\<lparr>pc := SyncTest\<rparr>
          else
            (let buf = buffer s @ env_chunk e
             in if 10 \<in> set buf
                then
                  (case split_line buf of
                     (line, rest) \<Rightarrow>
                       (case loads line of
                          JFalsy \<Rightarrow> s\<lparr>pc := ReadTest, buffer := rest\<rparr>
                        | JDict is_handshake \<Rightarrow>
                            if is_handshake
                            then s\<lparr>pc := SyncTest, buffer := rest,
                                   responses_consumed := Suc (responses_consumed s)\<rparr>
                            else s\<lparr>pc := ReadTest, buffer := rest\<rparr>
                        | JOther \<Rightarrow> tcp_handler (s\<lparr>buffer := rest\<rparr>)))
                else s\<lparr>pc := ReadTest, buffer := buf\<rparr>)
      | SyncTest \<Rightarrow> if env_running e then s\<lparr>pc := SyncSend\<rparr> else s\<lparr>pc := OuterTest\<rparr>
      | SyncSend \<Rightarrow>
          if env_ok e then s\<lparr>pc := SyncTest, peer := (peer s)\<lparr>last_tx_time := env_now e\<rparr>\<rparr>
          else s\<lparr>pc := OuterTest\<rparr>
      | Returned \<Rightarrow> s)"

fun tcp_run :: "(byte list \<Rightarrow> json_msg) \<Rightarrow> tcp_env list \<Rightarrow> tcp_task \<Rightarrow> tcp_task" where
  "tcp_run loads [] s = s"
| "tcp_run loads (e # es) s = tcp_run loads es (tcp_step loads e s)"

text \<open>
  What holds in every state the machine reaches from its start on a peer that is not
  connected: the flag is up only if a handshake was sent, no more responses were
  consumed than handshakes sent, and in the read loop the response to the last
  handshake is still outstanding.
\<close>

definition tcp_inv :: "tcp_task \<Rightarrow> bool" where
  "tcp_inv s \<longleftrightarrow>
     (connected (peer s) \<longrightarrow> 0 < handshakes_sent s) \<and>
     responses_consumed s \<le> handshakes_sent s \<and>
     (pc s = ReadTest \<or> pc s = Recv \<longrightarrow> responses_consumed s < handshakes_sent s)"

text \<open>
  For the examples: the answer of the surroundings with the clock at 0, and a decoder
  that takes a line starting with a brace for a handshake dictionary, a line starting
  with a bracket for a list, and any other line for no decode.
\<close>

definition tcp_answer :: "bool \<Rightarrow> bool \<Rightarrow> byte list \<Rightarrow> tcp_env" where
  "tcp_answer flag ok chunk =
     \<lparr> env_running = flag, env_ok = ok, env_chunk = chunk, env_now = 0 \<rparr>"

definition loads_example :: "byte list \<Rightarrow> json_msg" where
  "loads_example line =
     (if take 1 line = [123] then JDict True else if take 1 line = [91] then JOther else JFalsy)"

section \<open>Network manager (network.py, class NetworkManager)\<close>

text \<open>
  The registry is a map from peer names to peer connections. The fields that share a
  name with a field of the peer connection carry the prefix \<open>nm_\<close>. The listener thread
  does nothing and the lock only serialises the calls, each of which is one function
  here.
\<close>

record network_manager =
  nm_username :: string
  nm_on_mouse_data :: bool
  base_tcp_port :: int
  base_udp_port :: int
  next_port_offset :: int
  peers :: "string \<rightharpoonup> peer_connection"
  nm_running :: bool

definition NetworkManager :: "string \<Rightarrow> bool \<Rightarrow> network_manager" where
  "NetworkManager user mouse_cb =
     \<lparr> nm_username = user, nm_on_mouse_data = mouse_cb, base_tcp_port = 50000,
       base_udp_port = 51000, next_port_offset = 0, peers = Map.empty, nm_running = False \<rparr>"

text \<open>
  \<^verbatim>\<open>connect_to_peer\<close>. The new peer is put into the registry before it is started, and
  the registry holds the object itself, so a raise of \<^verbatim>\<open>start\<close> leaves the peer
  registered, in the state \<^verbatim>\<open>start\<close> left it; the raise is the second component.
\<close>

definition connect_to_peer ::
  "bool \<Rightarrow> string \<Rightarrow> string \<Rightarrow> int \<Rightarrow> network_manager \<Rightarrow> network_manager \<times> exn option" where
  "connect_to_peer bind_ok name address port m =
     (if name \<in> dom (peers m) then (m, None)
      else
        (let tcp = base_tcp_port m + next_port_offset m;
             udp = base_udp_port m + next_port_offset m;
             m1 = m\<lparr>next_port_offset := next_port_offset m + 1\<rparr>;
             new_peer = PeerConnection name address
               (if port > 0 then port else 50000)
               (if port > 0 then port + 1000 else 51000)
               tcp udp (nm_username m) True True
         in (case start bind_ok new_peer of
               (started, raised) \<Rightarrow> (m1\<lparr>peers := (peers m1)(name \<mapsto> started)\<rparr>, raised))))"

definition disconnect_peer :: "string \<Rightarrow> network_manager \<Rightarrow> network_manager" where
  "disconnect_peer name m =
     (if name \<in> dom (peers m) then m\<lparr>peers := (peers m)(name := None)\<rparr> else m)"

definition nm_update_mouse_state ::
  "network_manager \<Rightarrow> int \<Rightarrow> int \<Rightarrow> int \<Rightarrow> int \<Rightarrow> int \<Rightarrow> network_manager" where
  "nm_update_mouse_state m x y wheel_x wheel_y buttons =
     m\<lparr>peers := (\<lambda>name. map_option (\<lambda>p. update_mouse_state p x y wheel_x wheel_y buttons)
                   (peers m name))\<rparr>"

text \<open>
  A sequence of \<^verbatim>\<open>connect_to_peer\<close> calls, each with the answer the system gives to its
  bind; a call that raises leaves the manager as it then stands and the next call goes on
  from there.
\<close>

fun connect_all ::
  "(bool \<times> string \<times> string \<times> int) list \<Rightarrow> network_manager \<Rightarrow> network_manager" where
  "connect_all [] m = m"
| "connect_all ((bind_ok, name, address, port) # calls) m =
     connect_all calls (fst (connect_to_peer bind_ok name address port m))"

text \<open>The peer name of a call in such a sequence.\<close>

fun call_name :: "bool \<times> string \<times> string \<times> int \<Rightarrow> string" where
  "call_name (bind_ok, name, address, port) = name"

text \<open>The clamp ranges of the telemetry snapshot.\<close>

definition snapshot_in_range :: "peer_connection \<Rightarrow> bool" where
  "snapshot_in_range p \<longleftrightarrow>
     0 \<le> mouse_x p \<and> mouse_x p \<le> 65535 \<and> 0 \<le> mouse_y p \<and> mouse_y p \<le> 65535 \<and>
     - 128 \<le> mouse_wheel_x p \<and> mouse_wheel_x p \<le> 127 \<and>
     - 128 \<le> mouse_wheel_y p \<and> mouse_wheel_y p \<le> 127 \<and>
     0 \<le> mouse_buttons p \<and> mouse_buttons p \<le> 255"

definition args_in_range :: "int \<Rightarrow> int \<Rightarrow> int \<Rightarrow> int \<Rightarrow> int \<Rightarrow> bool" where
  "args_in_range x y wheel_x wheel_y buttons \<longleftrightarrow>
     0 \<le> x \<and> x \<le> 65535 \<and> 0 \<le> y \<and> y \<le> 65535 \<and>
     - 128 \<le> wheel_x \<and> wheel_x \<le> 127 \<and> - 128 \<le> wheel_y \<and> wheel_y \<le> 127 \<and>
     0 \<le> buttons \<and> buttons \<le> 255"

text \<open>
  The peer of the scenario of the specification: peer B at 10.0.0.5 with announced port
  51000, as the first peer of a manager.
\<close>

definition peer_B :: peer_connection where
  "peer_B = PeerConnection ''B'' ''10.0.0.5'' 51000 52000 50000 51000 ''me'' True True"

section \<open>Sizes and decoding lemmas\<close>

lemma HEADER_SIZE_eq: "HEADER_SIZE = 3"
  by (simp add: HEADER_SIZE_def HEADER_FORMAT_def calcsize_def)

lemma MOUSE_SIZE_eq: "MOUSE_SIZE = 7"
  by (simp add: MOUSE_SIZE_def MOUSE_FORMAT_def calcsize_def)

lemma uint_hi: "0 \<le> v \<Longrightarrow> v \<le> 65535 \<Longrightarrow> uint (word_of_int (v div 256) :: byte) = v div 256"
  by (simp add: uint_word_of_int take_bit_eq_mod) 

lemma uint_lo: "uint (word_of_int (v mod 256) :: byte) = v mod 256"
  by (simp add: uint_word_of_int take_bit_eq_mod)

lemma uint_u8: "0 \<le> v \<Longrightarrow> v \<le> 255 \<Longrightarrow> uint (word_of_int v :: byte) = v"
  by (simp add: uint_word_of_int take_bit_eq_mod)

lemma sint_i8: "- 128 \<le> v \<Longrightarrow> v \<le> 127 \<Longrightarrow> sint (word_of_int v :: byte) = v"
  by (simp add: sint_sbintrunc' signed_take_bit_int_eq_self)

lemma u16_join: "0 \<le> v \<Longrightarrow> v \<le> 65535 \<Longrightarrow>
   uint (word_of_int (v div 256) :: byte) * 256 + uint (word_of_int (v mod 256) :: byte) = v"
  by (simp add: uint_hi uint_lo)

lemma unpack_header:
  "unpack (a # b # c # rest) =
     (if uint c = 0 then Inr (Some (Heartbeat (uint a * 256 + uint b)))
      else if uint c = 1 then
        (if length rest < 7 then Inr None
         else
           (case struct_unpack MOUSE_FORMAT (take 7 rest) of
              Inl e \<Rightarrow> Inl e
            | Inr ms \<Rightarrow>
                (case mouse_fields (uint a * 256 + uint b) ms of
                   Inl e \<Rightarrow> Inl e
                 | Inr p \<Rightarrow> Inr (Some p))))
      else Inr None)"
  by (simp add: unpack_def HEADER_SIZE_eq MOUSE_SIZE_eq slice_def HEADER_FORMAT_def
      TYPE_HEARTBEAT_def TYPE_MOUSE_ABSOLUTE_def)

lemma unpack_mouse_payload:
  "struct_unpack MOUSE_FORMAT [d3, d4, d5, d6, d7, d8, d9] =
     Inr [uint d3 * 256 + uint d4, uint d5 * 256 + uint d6, sint d7, sint d8, uint d9]"
  by (simp add: MOUSE_FORMAT_def)

lemma length_ge3: "3 \<le> length xs \<Longrightarrow> \<exists>a b c rest. xs = a # b # c # rest"
  by (cases xs; simp; rename_tac ys; case_tac ys; simp; rename_tac zs; case_tac zs; simp)

lemma length_ge7:
  "7 \<le> length xs \<Longrightarrow> \<exists>d3 d4 d5 d6 d7 d8 d9 rest. xs = d3 # d4 # d5 # d6 # d7 # d8 # d9 # rest"
proof -
  assume h: "7 \<le> length xs"
  then obtain a b c r1 where 1: "xs = a # b # c # r1" using length_ge3 [of xs] by auto
  with h have "3 \<le> length r1" by simp
  then obtain d e f r2 where 2: "r1 = d # e # f # r2" using length_ge3 [of r1] by auto
  with 1 h obtain g r3 where 3: "r2 = g # r3" by (cases r2) auto
  show ?thesis using 1 2 3 by simp
qed

lemma unpack_mouse:
  "unpack (a # b # 1 # d3 # d4 # d5 # d6 # d7 # d8 # d9 # extra) =
     Inr (Some (MouseAbsolute (uint a * 256 + uint b) (uint d3 * 256 + uint d4)
        (uint d5 * 256 + uint d6) (sint d7) (sint d8) (uint d9)))"
  by (simp add: unpack_header unpack_mouse_payload)

lemma word_eq_iff_uint0: "(c :: byte) = 0 \<longleftrightarrow> uint c = 0"
  by (simp add: uint_0_iff)
lemma word_eq_iff_uint1: "(c :: byte) = 1 \<longleftrightarrow> uint c = 1"
  by (simp add: word_uint_eq_iff)

section \<open>Claims about the packet codec\<close>

text \<open>
  Claim C1. For every sequence number in [0,65535], packing a heartbeat succeeds and
  unpacking the frame gives back a heartbeat with that sequence number; and for every
  \<open>x\<close>, \<open>y\<close> in [0,65535], wheel components in [-128,127] and buttons in [0,255],
  packing a mouse frame succeeds and unpacking it gives back exactly those six fields.
\<close>

theorem codec_round_trip:
  assumes "0 \<le> seq" and "seq \<le> 65535"
  shows "(\<exists>frame. pack_heartbeat seq = Inr frame \<and> unpack frame = Inr (Some (Heartbeat seq))) \<and>
     (0 \<le> x \<and> x \<le> 65535 \<and> 0 \<le> y \<and> y \<le> 65535 \<and> - 128 \<le> wheel_x \<and> wheel_x \<le> 127 \<and>
      - 128 \<le> wheel_y \<and> wheel_y \<le> 127 \<and> 0 \<le> buttons \<and> buttons \<le> 255 \<longrightarrow>
      (\<exists>frame. pack_mouse_absolute seq x y wheel_x wheel_y buttons = Inr frame \<and>
         unpack frame = Inr (Some (MouseAbsolute seq x y wheel_x wheel_y buttons))))"
proof (intro conjI impI)
  have "pack_heartbeat seq = Inr [word_of_int (seq div 256), word_of_int (seq mod 256), 0]"
    using assms by (simp add: pack_heartbeat_def HEADER_FORMAT_def TYPE_HEARTBEAT_def)
  moreover have "unpack [word_of_int (seq div 256), word_of_int (seq mod 256), 0] =
      Inr (Some (Heartbeat seq))"
    using assms by (simp add: unpack_header u16_join)
  ultimately show "\<exists>frame. pack_heartbeat seq = Inr frame \<and>
      unpack frame = Inr (Some (Heartbeat seq))"
    by simp
next
  assume r: "0 \<le> x \<and> x \<le> 65535 \<and> 0 \<le> y \<and> y \<le> 65535 \<and> - 128 \<le> wheel_x \<and>
    wheel_x \<le> 127 \<and> - 128 \<le> wheel_y \<and> wheel_y \<le> 127 \<and> 0 \<le> buttons \<and> buttons \<le> 255"
  let ?frame = "[word_of_int (seq div 256), word_of_int (seq mod 256), 1,
      word_of_int (x div 256), word_of_int (x mod 256),
      word_of_int (y div 256), word_of_int (y mod 256),
      word_of_int wheel_x, word_of_int wheel_y, word_of_int buttons] :: byte list"
  have p: "pack_mouse_absolute seq x y wheel_x wheel_y buttons = Inr ?frame"
    using assms r
    by (simp add: pack_mouse_absolute_def HEADER_FORMAT_def MOUSE_FORMAT_def
        TYPE_MOUSE_ABSOLUTE_def)
  have u: "unpack ?frame = Inr (Some (MouseAbsolute seq x y wheel_x wheel_y buttons))"
    using assms r by (simp add: unpack_mouse uint_hi uint_lo sint_i8 uint_u8)
  from p u show "\<exists>frame. pack_mouse_absolute seq x y wheel_x wheel_y buttons = Inr frame \<and>
      unpack frame = Inr (Some (MouseAbsolute seq x y wheel_x wheel_y buttons))"
    by simp
qed

text \<open>The round trip at the largest sequence number and the extreme wheel and button values.\<close>

theorem codec_round_trip_witness:
  "(\<exists>frame. pack_heartbeat 65535 = Inr frame \<and> unpack frame = Inr (Some (Heartbeat 65535))) \<and>
   (\<exists>frame. pack_mouse_absolute 65535 100 200 1 (- 128) 255 = Inr frame \<and>
      unpack frame = Inr (Some (MouseAbsolute 65535 100 200 1 (- 128) 255)))"
  using codec_round_trip [of 65535 100 200 1 "- 128" 255] by simp

text \<open>
  Claim C2, as the code has it. \<^verbatim>\<open>unpack\<close> never raises, on any byte string, and it
  returns \<open>None\<close> exactly when the input is shorter than the 3-byte header, or the type
  byte is neither 0 nor 1, or the type byte is 1 and the input is shorter than 10 bytes:
  the mouse payload \<^verbatim>\<open>!HHbbB\<close> has 7 bytes, so a mouse frame has 3 + 7 = 10.
\<close>

theorem unpack_total_none_iff:
  "(\<exists>r. unpack data = Inr r) \<and>
   (unpack data = Inr None \<longleftrightarrow>
      length data < 3 \<or> (data ! 2 \<noteq> 0 \<and> data ! 2 \<noteq> 1) \<or> (data ! 2 = 1 \<and> length data < 10))"
proof (cases "length data < 3")
  case True
  then show ?thesis by (simp add: unpack_def HEADER_SIZE_eq)
next
  case False
  then obtain a b c rest where d: "data = a # b # c # rest"
    using length_ge3 [of data] by auto
  show ?thesis
  proof (cases "c = 1 \<and> 7 \<le> length rest")
    case True
    then obtain d3 d4 d5 d6 d7 d8 d9 extra where
      "rest = d3 # d4 # d5 # d6 # d7 # d8 # d9 # extra"
      using length_ge7 [of rest] by auto
    with d True show ?thesis by (simp add: unpack_mouse)
  next
    case False
    with d show ?thesis
      by (auto simp add: unpack_header word_eq_iff_uint0 word_eq_iff_uint1)
  qed
qed

text \<open>
  Claim C2 as stated puts the bound for a mouse frame at 8 bytes. An input of 8 bytes
  with type byte 1 is not shorter than 8, yet it does not decode.
\<close>

theorem unpack_short_mouse_counterexample:
  "unpack [0, 0, 1, 0, 0, 0, 0, 0] = Inr None \<and>
   \<not> (length [0, 0, 1, 0, 0, 0, 0, 0 :: byte] < 3 \<or>
      ([0, 0, 1, 0, 0, 0, 0, 0 :: byte] ! 2 \<noteq> 0 \<and> [0, 0, 1, 0, 0, 0, 0, 0 :: byte] ! 2 \<noteq> 1) \<or>
      ([0, 0, 1, 0, 0, 0, 0, 0 :: byte] ! 2 = 1 \<and> length [0, 0, 1, 0, 0, 0, 0, 0 :: byte] < 8))"
  by (simp add: unpack_header)

text \<open>
  Claim C10, as the code has it. Bytes after the frame are ignored: an input of at least
  3 bytes with type byte 0 decodes as the heartbeat of its first 3 bytes, and an input
  of at least 10 bytes with type byte 1 decodes as the mouse frame of its first 10 bytes;
  the length is never compared for equality.
\<close>

theorem unpack_ignores_trailing:
  "(3 \<le> length data \<and> data ! 2 = 0 \<longrightarrow>
      unpack data = Inr (Some (Heartbeat (uint (data ! 0) * 256 + uint (data ! 1)))) \<and>
      unpack data = unpack (take 3 data)) \<and>
   (10 \<le> length data \<and> data ! 2 = 1 \<longrightarrow>
      unpack data = Inr (Some (MouseAbsolute
        (uint (data ! 0) * 256 + uint (data ! 1))
        (uint (data ! 3) * 256 + uint (data ! 4))
        (uint (data ! 5) * 256 + uint (data ! 6))
        (sint (data ! 7)) (sint (data ! 8)) (uint (data ! 9)))) \<and>
      unpack data = unpack (take 10 data))"
proof (intro conjI impI)
  assume h: "3 \<le> length data \<and> data ! 2 = 0"
  then obtain a b c rest where d: "data = a # b # c # rest"
    using length_ge3 [of data] by auto
  with h have c: "c = 0" by simp
  show "unpack data = Inr (Some (Heartbeat (uint (data ! 0) * 256 + uint (data ! 1))))"
    using d c by (simp add: unpack_header)
  show "unpack data = unpack (take 3 data)"
    using d c by (simp add: unpack_header)
next
  assume h: "10 \<le> length data \<and> data ! 2 = 1"
  then obtain a b c rest where d: "data = a # b # c # rest"
    using length_ge3 [of data] by auto
  with h have c: "c = 1" and "7 \<le> length rest" by simp_all
  then obtain d3 d4 d5 d6 d7 d8 d9 extra where
    r: "rest = d3 # d4 # d5 # d6 # d7 # d8 # d9 # extra"
    using length_ge7 [of rest] by auto
  show "unpack data = Inr (Some (MouseAbsolute
        (uint (data ! 0) * 256 + uint (data ! 1))
        (uint (data ! 3) * 256 + uint (data ! 4))
        (uint (data ! 5) * 256 + uint (data ! 6))
        (sint (data ! 7)) (sint (data ! 8)) (uint (data ! 9))))"
    using d c r by (simp add: unpack_mouse)
  show "unpack data = unpack (take 10 data)"
    using d c r by (simp add: unpack_mouse)
qed

text \<open>A heartbeat and a mouse frame, each followed by two more bytes.\<close>

theorem unpack_ignores_trailing_witness:
  "unpack [0, 7, 0, 9, 9] = Inr (Some (Heartbeat 7)) \<and>
   unpack [1, 2, 1, 0, 100, 0, 200, 1, 255, 4, 9, 9] =
     Inr (Some (MouseAbsolute 258 100 200 1 (- 1) 4))"
  using unpack_ignores_trailing [of "[0, 7, 0, 9, 9]"]
    unpack_ignores_trailing [of "[1, 2, 1, 0, 100, 0, 200, 1, 255, 4, 9, 9]"]
  by simp

text \<open>
  Claim C10 as stated lets every input of at least 8 bytes with type byte 1 decode. An
  input of 9 such bytes does not.
\<close>

theorem unpack_nine_bytes_counterexample:
  "10 > length [0, 7, 1, 0, 100, 0, 200, 1, 255 :: byte] \<and>
   length [0, 7, 1, 0, 100, 0, 200, 1, 255 :: byte] \<ge> 8 \<and>
   [0, 7, 1, 0, 100, 0, 200, 1, 255 :: byte] ! 2 = 1 \<and>
   unpack [0, 7, 1, 0, 100, 0, 200, 1, 255] = Inr None"
  by (simp add: unpack_header)


section \<open>Claims about the UDP transmit task\<close>

text \<open>A frame that was packed decodes to the fields it was packed from.\<close>

lemma pack_mouse_absolute_Inr:
  assumes "pack_mouse_absolute s x y wx wy b = Inr frame"
  shows "unpack frame = Inr (Some (MouseAbsolute s x y wx wy b))"
proof -
  from assms have r: "0 \<le> s \<and> s \<le> 65535 \<and> 0 \<le> x \<and> x \<le> 65535 \<and> 0 \<le> y \<and> y \<le> 65535 \<and>
      - 128 \<le> wx \<and> wx \<le> 127 \<and> - 128 \<le> wy \<and> wy \<le> 127 \<and> 0 \<le> b \<and> b \<le> 255"
    by (simp add: pack_mouse_absolute_def HEADER_FORMAT_def MOUSE_FORMAT_def
        TYPE_MOUSE_ABSOLUTE_def split: if_splits)
  with assms have "frame = [word_of_int (s div 256), word_of_int (s mod 256), 1,
      word_of_int (x div 256), word_of_int (x mod 256),
      word_of_int (y div 256), word_of_int (y mod 256),
      word_of_int wx, word_of_int wy, word_of_int b]"
    by (simp add: pack_mouse_absolute_def HEADER_FORMAT_def MOUSE_FORMAT_def
        TYPE_MOUSE_ABSOLUTE_def)
  with r show ?thesis
    by (simp add: unpack_mouse uint_hi uint_lo sint_i8 uint_u8)
qed

lemma udp_transmit_step_snapshot:
  "mouse_x (fst (udp_transmit_step send_ok now p)) = mouse_x p \<and>
   mouse_y (fst (udp_transmit_step send_ok now p)) = mouse_y p \<and>
   mouse_wheel_x (fst (udp_transmit_step send_ok now p)) = mouse_wheel_x p \<and>
   mouse_wheel_y (fst (udp_transmit_step send_ok now p)) = mouse_wheel_y p \<and>
   mouse_buttons (fst (udp_transmit_step send_ok now p)) = mouse_buttons p"
  by (simp add: udp_transmit_step_def split: sum.splits)

lemma udp_transmit_step_frame:
  "snd (udp_transmit_step send_ok now p) = Some f \<Longrightarrow>
   unpack f = Inr (Some (MouseAbsolute (tx_sequence p) (mouse_x p) (mouse_y p)
     (mouse_wheel_x p) (mouse_wheel_y p) (mouse_buttons p)))"
  by (auto simp add: udp_transmit_step_def pack_mouse_absolute_Inr split: sum.splits if_splits)

lemma udp_transmit_loop_Cons:
  "udp_transmit_loop ((still_running, send_ok, now) # script) p =
     (if \<not> still_running then (p, [])
      else (fst (udp_transmit_loop script (fst (udp_transmit_step send_ok now p))),
            (case snd (udp_transmit_step send_ok now p) of None \<Rightarrow> [] | Some f \<Rightarrow> [f]) @
            snd (udp_transmit_loop script (fst (udp_transmit_step send_ok now p)))))"
  by (simp split: prod.splits option.splits)

lemma udp_transmit_loop_snapshot:
  "mouse_x (fst (udp_transmit_loop script p)) = mouse_x p \<and>
   mouse_y (fst (udp_transmit_loop script p)) = mouse_y p \<and>
   mouse_wheel_x (fst (udp_transmit_loop script p)) = mouse_wheel_x p \<and>
   mouse_wheel_y (fst (udp_transmit_loop script p)) = mouse_wheel_y p \<and>
   mouse_buttons (fst (udp_transmit_loop script p)) = mouse_buttons p"
proof (induction script arbitrary: p)
  case Nil
  show ?case by simp
next
  case (Cons step script)
  obtain still_running send_ok now where s: "step = (still_running, send_ok, now)"
    by (cases step) auto
  show ?case
    unfolding s udp_transmit_loop_Cons
    using Cons.IH [of "fst (udp_transmit_step send_ok now p)"]
      udp_transmit_step_snapshot [of send_ok now p]
    by (cases still_running) simp_all
qed

lemma udp_transmit_loop_frames:
  "f \<in> set (snd (udp_transmit_loop script p)) \<Longrightarrow>
   \<exists>s. unpack f = Inr (Some (MouseAbsolute s (mouse_x p) (mouse_y p)
     (mouse_wheel_x p) (mouse_wheel_y p) (mouse_buttons p)))"
proof (induction script arbitrary: p)
  case Nil
  then show ?case by simp
next
  case (Cons step script)
  obtain still_running send_ok now where s: "step = (still_running, send_ok, now)"
    by (cases step) auto
  let ?p' = "fst (udp_transmit_step send_ok now p)"
  from Cons.prems
  have "snd (udp_transmit_step send_ok now p) = Some f \<or> f \<in> set (snd (udp_transmit_loop script ?p'))"
    unfolding s udp_transmit_loop_Cons
    by (auto split: if_splits option.splits)
  then show ?case
  proof
    assume "snd (udp_transmit_step send_ok now p) = Some f"
    then show ?thesis using udp_transmit_step_frame by blast
  next
    assume "f \<in> set (snd (udp_transmit_loop script ?p'))"
    from Cons.IH [OF this] show ?thesis
      using udp_transmit_step_snapshot [of send_ok now p] by simp
  qed
qed

text \<open>
  Claim C4, as the code has it. A pass of the UDP transmit task leaves the wheel-delta
  fields of the snapshot as they are (it writes only the sequence counter and the
  last-transmit time), and so does the whole loop; every frame the loop sends carries
  the position, wheel delta and buttons the snapshot held when the loop was entered.
  A wheel delta is sent again in every frame until \<^verbatim>\<open>update_mouse_state\<close> overwrites it.
\<close>

theorem udp_transmit_keeps_wheel_delta:
  "mouse_wheel_x (fst (udp_transmit_step send_ok now p)) = mouse_wheel_x p \<and>
   mouse_wheel_y (fst (udp_transmit_step send_ok now p)) = mouse_wheel_y p \<and>
   mouse_wheel_x (fst (udp_transmit_loop script p)) = mouse_wheel_x p \<and>
   mouse_wheel_y (fst (udp_transmit_loop script p)) = mouse_wheel_y p \<and>
   (\<forall>f \<in> set (snd (udp_transmit_loop script p)).
      \<exists>s. unpack f = Inr (Some (MouseAbsolute s (mouse_x p) (mouse_y p)
        (mouse_wheel_x p) (mouse_wheel_y p) (mouse_buttons p))))"
  using udp_transmit_step_snapshot [of send_ok now p] udp_transmit_loop_snapshot [of script p]
    udp_transmit_loop_frames [of _ script p]
  by blast

text \<open>Two passes over a snapshot with wheel delta (1, -1): the second frame carries it too.\<close>

theorem udp_transmit_keeps_wheel_delta_witness:
  "mouse_wheel_x (fst (udp_transmit_loop [(True, True, 1), (True, True, 2)]
      (update_mouse_state peer_B 100 200 1 (- 1) 1))) = 1 \<and>
   (\<exists>s. unpack [0, 1, 1, 0, 100, 0, 200, 1, 255, 1] =
      Inr (Some (MouseAbsolute s 100 200 1 (- 1) 1)))"
proof -
  let ?p = "update_mouse_state peer_B 100 200 1 (- 1) 1"
  let ?script = "[(True, True, 1), (True, True, 2)] :: (bool \<times> bool \<times> real) list"
  have frames: "snd (udp_transmit_loop ?script ?p) =
      [[0, 0, 1, 0, 100, 0, 200, 1, 255, 1], [0, 1, 1, 0, 100, 0, 200, 1, 255, 1]]"
    by (simp add: udp_transmit_step_def update_mouse_state_def peer_B_def PeerConnection_def
        pack_mouse_absolute_def HEADER_FORMAT_def MOUSE_FORMAT_def TYPE_MOUSE_ABSOLUTE_def)
  have fields: "mouse_x ?p = 100 \<and> mouse_y ?p = 200 \<and> mouse_wheel_x ?p = 1 \<and>
      mouse_wheel_y ?p = - 1 \<and> mouse_buttons ?p = 1"
    by (simp add: update_mouse_state_def)
  from udp_transmit_keeps_wheel_delta [of True 1 ?p ?script] frames fields
  show ?thesis by simp
qed

text \<open>
  Claim C4 as stated has the wheel delta reset to zero once it is packed. After one pass
  the snapshot still holds (1, -1), and two passes send two frames with that delta
  (bytes 1 and 255 at offsets 7 and 8).
\<close>

theorem udp_transmit_wheel_counterexample:
  "mouse_wheel_x (fst (udp_transmit_step True 1 (update_mouse_state peer_B 100 200 1 (- 1) 1))) = 1 \<and>
   mouse_wheel_y (fst (udp_transmit_step True 1 (update_mouse_state peer_B 100 200 1 (- 1) 1))) = - 1 \<and>
   snd (udp_transmit_loop [(True, True, 1), (True, True, 2)]
          (update_mouse_state peer_B 100 200 1 (- 1) 1)) =
     [[0, 0, 1, 0, 100, 0, 200, 1, 255, 1], [0, 1, 1, 0, 100, 0, 200, 1, 255, 1]]"
  by (simp add: udp_transmit_step_def update_mouse_state_def peer_B_def PeerConnection_def
      pack_mouse_absolute_def HEADER_FORMAT_def MOUSE_FORMAT_def TYPE_MOUSE_ABSOLUTE_def)

section \<open>Claims about the telemetry snapshot\<close>

text \<open>
  Claim C9, as the code has it. \<^verbatim>\<open>update_mouse_state\<close> stores its arguments as they
  are given, on a peer connection and on every peer of the manager; it does not clamp.
  The snapshot lies in the clamp ranges after the call exactly when the arguments do.
\<close>

theorem update_mouse_state_stores_arguments:
  "(snapshot_in_range (update_mouse_state p x y wheel_x wheel_y buttons) \<longleftrightarrow>
      args_in_range x y wheel_x wheel_y buttons) \<and>
   (peers m name = Some p \<longrightarrow>
      (\<exists>p'. peers (nm_update_mouse_state m x y wheel_x wheel_y buttons) name = Some p' \<and>
         mouse_x p' = x \<and> mouse_y p' = y \<and> mouse_wheel_x p' = wheel_x \<and>
         mouse_wheel_y p' = wheel_y \<and> mouse_buttons p' = buttons \<and>
         (snapshot_in_range p' \<longleftrightarrow> args_in_range x y wheel_x wheel_y buttons)))"
  by (simp add: update_mouse_state_def snapshot_in_range_def args_in_range_def
      nm_update_mouse_state_def)


text \<open>The values of the specification's example, fanned out to the one peer of a manager.\<close>

theorem update_mouse_state_stores_arguments_witness:
  "snapshot_in_range (update_mouse_state peer_B 100 200 1 (- 1) 1) \<and>
   (\<exists>p'. peers (nm_update_mouse_state
              ((NetworkManager ''me'' True)\<lparr>peers := [''B'' \<mapsto> peer_B]\<rparr>) 100 200 1 (- 1) 1) ''B'' =
            Some p' \<and>
      mouse_x p' = 100 \<and> mouse_y p' = 200 \<and> mouse_wheel_x p' = 1 \<and>
      mouse_wheel_y p' = - 1 \<and> mouse_buttons p' = 1 \<and> snapshot_in_range p')"
  using update_mouse_state_stores_arguments
    [of peer_B 100 200 1 "- 1" 1 "(NetworkManager ''me'' True)\<lparr>peers := [''B'' \<mapsto> peer_B]\<rparr>" "''B''"]
  by (simp add: args_in_range_def)

text \<open>
  Claim C9 as stated has the ranges hold after any call. A call with values outside the
  ranges leaves them in the snapshot.
\<close>

theorem update_mouse_state_counterexample:
  "mouse_x (update_mouse_state peer_B 70000 (- 1) 300 (- 300) 256) = 70000 \<and>
   \<not> snapshot_in_range (update_mouse_state peer_B 70000 (- 1) 300 (- 300) 256)"
  by (simp add: update_mouse_state_def snapshot_in_range_def)


section \<open>Claims about the network manager\<close>

text \<open>What one call of \<^verbatim>\<open>connect_to_peer\<close> does to the registry and to the allocator.\<close>

lemma connect_to_peer_registered:
  "name \<in> dom (peers m) \<Longrightarrow> connect_to_peer bind_ok name address port m = (m, None)"
  by (simp add: connect_to_peer_def)

lemma connect_to_peer_new:
  "name \<notin> dom (peers m) \<Longrightarrow>
   fst (connect_to_peer bind_ok name address port m) =
     m\<lparr>next_port_offset := next_port_offset m + 1,
       peers := (peers m)(name \<mapsto> fst (start bind_ok (PeerConnection name address
         (if port > 0 then port else 50000) (if port > 0 then port + 1000 else 51000)
         (base_tcp_port m + next_port_offset m) (base_udp_port m + next_port_offset m)
         (nm_username m) True True)))\<rparr>"
  by (simp add: connect_to_peer_def Let_def split: prod.splits)

lemma start_fields:
  "tcp_port (fst (start bind_ok p)) = tcp_port p \<and>
   udp_port (fst (start bind_ok p)) = udp_port p \<and>
   local_tcp_port (fst (start bind_ok p)) = local_tcp_port p \<and>
   local_udp_port (fst (start bind_ok p)) = local_udp_port p"
  by (simp add: start_def Let_def)

lemma connect_to_peer_registers:
  "name \<in> dom (peers (fst (connect_to_peer bind_ok name address port m)))"
  by (cases "name \<in> dom (peers m)")
    (simp_all add: connect_to_peer_registered connect_to_peer_new)

lemma connect_to_peer_keeps:
  "peers m n = Some p \<Longrightarrow>
   peers (fst (connect_to_peer bind_ok name address port m)) n = Some p"
  by (cases "name \<in> dom (peers m)")
    (auto simp add: connect_to_peer_registered connect_to_peer_new)

lemma connect_to_peer_bases:
  "base_tcp_port (fst (connect_to_peer bind_ok name address port m)) = base_tcp_port m \<and>
   base_udp_port (fst (connect_to_peer bind_ok name address port m)) = base_udp_port m"
  by (cases "name \<in> dom (peers m)")
    (simp_all add: connect_to_peer_registered connect_to_peer_new)

lemma connect_to_peer_dom:
  "dom (peers (fst (connect_to_peer bind_ok name address port m))) = insert name (dom (peers m))"
  by (cases "name \<in> dom (peers m)")
    (auto simp add: connect_to_peer_registered connect_to_peer_new)

lemma connect_all_keeps:
  "peers m n = Some p \<Longrightarrow> peers (connect_all calls m) n = Some p"
proof (induction calls arbitrary: m)
  case Nil
  then show ?case by simp
next
  case (Cons c calls)
  obtain bind_ok name address port where c: "c = (bind_ok, name, address, port)"
    by (cases c) auto
  show ?case
    using Cons.IH [OF connect_to_peer_keeps [OF Cons.prems]] by (simp add: c)
qed

lemma connect_all_ports:
  "distinct (map call_name calls) \<Longrightarrow> set (map call_name calls) \<inter> dom (peers m) = {} \<Longrightarrow>
   map (\<lambda>c. map_option local_tcp_port (peers (connect_all calls m) (call_name c))) calls =
     map (\<lambda>k. Some (base_tcp_port m + next_port_offset m + int k)) [0..<length calls] \<and>
   map (\<lambda>c. map_option local_udp_port (peers (connect_all calls m) (call_name c))) calls =
     map (\<lambda>k. Some (base_udp_port m + next_port_offset m + int k)) [0..<length calls]"
proof (induction calls arbitrary: m)
  case Nil
  show ?case by simp
next
  case (Cons c calls)
  obtain bind_ok name address port where c: "c = (bind_ok, name, address, port)"
    by (cases c) auto
  let ?m' = "fst (connect_to_peer bind_ok name address port m)"
  from Cons.prems c have new: "name \<notin> dom (peers m)" by auto
  let ?p = "fst (start bind_ok (PeerConnection name address
         (if port > 0 then port else 50000) (if port > 0 then port + 1000 else 51000)
         (base_tcp_port m + next_port_offset m) (base_udp_port m + next_port_offset m)
         (nm_username m) True True))"
  have here: "peers ?m' name = Some ?p"
    by (simp add: connect_to_peer_new [OF new])
  have kept: "peers (connect_all calls ?m') name = Some ?p"
    by (rule connect_all_keeps [OF here])
  have ports: "local_tcp_port ?p = base_tcp_port m + next_port_offset m"
    "local_udp_port ?p = base_udp_port m + next_port_offset m"
    by (simp_all add: start_fields PeerConnection_def)
  have off: "next_port_offset ?m' = next_port_offset m + 1"
    "base_tcp_port ?m' = base_tcp_port m" "base_udp_port ?m' = base_udp_port m"
    by (simp_all add: connect_to_peer_new [OF new])
  from Cons.prems c have d: "distinct (map call_name calls)"
    and disj: "set (map call_name calls) \<inter> dom (peers ?m') = {}"
    by (auto simp add: connect_to_peer_dom)
  note ih = Cons.IH [OF d disj]
  have shift: "\<And>b::int. map (\<lambda>k. Some (b + int k)) [0..<Suc (length calls)] =
      Some b # map (\<lambda>k. Some (b + 1 + int k)) [0..<length calls]"
  proof -
    fix b :: int
    have "[0..<Suc (length calls)] = 0 # map Suc [0..<length calls]"
      by (simp only: upt_conv_Cons [of 0 "Suc (length calls)"] map_Suc_upt)
    then show "map (\<lambda>k. Some (b + int k)) [0..<Suc (length calls)] =
      Some b # map (\<lambda>k. Some (b + 1 + int k)) [0..<length calls]"
      by (simp add: comp_def algebra_simps del: upt_Suc)
  qed
  have step: "connect_all (c # calls) m = connect_all calls ?m'"
    by (simp add: c)
  have nm: "call_name c = name"
    by (simp add: c)
  have tcp: "map (\<lambda>c. map_option local_tcp_port (peers (connect_all calls ?m') (call_name c))) calls =
      map (\<lambda>k. Some (base_tcp_port m + next_port_offset m + 1 + int k)) [0..<length calls]"
    using ih by (simp add: off algebra_simps)
  have udp: "map (\<lambda>c. map_option local_udp_port (peers (connect_all calls ?m') (call_name c))) calls =
      map (\<lambda>k. Some (base_udp_port m + next_port_offset m + 1 + int k)) [0..<length calls]"
    using ih by (simp add: off algebra_simps)
  show ?case
    unfolding step list.map length_Cons shift nm kept option.map ports tcp udp
    by simp
qed


text \<open>
  Claim C6. In every manager state in which the name has a registered session, a call of
  \<^verbatim>\<open>connect_to_peer\<close> with that name returns without raising and leaves the manager as
  it was: the registry, hence its size, and the next port offset. In particular a second
  call with the name of a first one has no effect, whatever address and port it gives
  and whether or not the first call's bind succeeded.
\<close>

theorem connect_to_peer_idempotent:
  "(name \<in> dom (peers m) \<longrightarrow>
      connect_to_peer bind_ok name address port m = (m, None)) \<and>
   connect_to_peer bind_ok' name address' port'
       (fst (connect_to_peer bind_ok name address port m)) =
     (fst (connect_to_peer bind_ok name address port m), None)"
  using connect_to_peer_registers [of name bind_ok address port m]
  by (simp add: connect_to_peer_registered)

text \<open>A manager that holds peer B and has given out one offset.\<close>

theorem connect_to_peer_idempotent_witness:
  "''B'' \<in> dom (peers ((NetworkManager ''me'' True)\<lparr>next_port_offset := 1, peers := [''B'' \<mapsto> peer_B]\<rparr>)) \<and>
   connect_to_peer True ''B'' ''10.0.0.9'' 7
       ((NetworkManager ''me'' True)\<lparr>next_port_offset := 1, peers := [''B'' \<mapsto> peer_B]\<rparr>) =
     ((NetworkManager ''me'' True)\<lparr>next_port_offset := 1, peers := [''B'' \<mapsto> peer_B]\<rparr>, None)"
  using connect_to_peer_idempotent
    [of "''B''" "(NetworkManager ''me'' True)\<lparr>next_port_offset := 1, peers := [''B'' \<mapsto> peer_B]\<rparr>"
      True "''10.0.0.9''" 7]
  by simp

text \<open>
  Claim C7. For every sequence of calls of \<^verbatim>\<open>connect_to_peer\<close> on a new manager with
  pairwise distinct peer names, the local TCP ports of the peers, in the order of the
  calls, are 50000, 50001, ... and the local UDP ports are 51000, 51001, ...: the k-th
  peer has 50000 + k and 51000 + k, counting from 0. So the TCP ports are pairwise
  distinct, and so are the UDP ports.
\<close>

theorem connect_all_allocates_consecutive_ports:
  assumes "distinct (map call_name calls)"
  shows "map (\<lambda>c. map_option local_tcp_port
             (peers (connect_all calls (NetworkManager user mouse_cb)) (call_name c))) calls =
           map (\<lambda>k. Some (50000 + int k)) [0..<length calls] \<and>
         map (\<lambda>c. map_option local_udp_port
             (peers (connect_all calls (NetworkManager user mouse_cb)) (call_name c))) calls =
           map (\<lambda>k. Some (51000 + int k)) [0..<length calls] \<and>
         distinct (map (\<lambda>c. map_option local_tcp_port
             (peers (connect_all calls (NetworkManager user mouse_cb)) (call_name c))) calls) \<and>
         distinct (map (\<lambda>c. map_option local_udp_port
             (peers (connect_all calls (NetworkManager user mouse_cb)) (call_name c))) calls)"
proof -
  have fresh: "set (map call_name calls) \<inter> dom (peers (NetworkManager user mouse_cb)) = {}"
    by (simp add: NetworkManager_def)
  have init: "base_tcp_port (NetworkManager user mouse_cb) = 50000"
    "base_udp_port (NetworkManager user mouse_cb) = 51000"
    "next_port_offset (NetworkManager user mouse_cb) = 0"
    by (simp_all add: NetworkManager_def)
  have d: "\<And>b::int. distinct (map (\<lambda>k. Some (b + int k)) [0..<length calls])"
    by (simp add: distinct_map inj_on_def)
  from connect_all_ports [OF assms fresh] show ?thesis
    unfolding init by (simp add: d del: upt_Suc)
qed

text \<open>Three peers; the bind of the second one fails, and its ports are allocated all the same.\<close>

theorem connect_all_allocates_consecutive_ports_witness:
  "map_option local_tcp_port (peers (connect_all
      [(True, ''A'', ''10.0.0.1'', 51000), (False, ''B'', ''10.0.0.5'', 51000), (True, ''C'', ''10.0.0.7'', 0)]
      (NetworkManager ''me'' True)) ''A'') = Some 50000 \<and>
   map_option local_tcp_port (peers (connect_all
      [(True, ''A'', ''10.0.0.1'', 51000), (False, ''B'', ''10.0.0.5'', 51000), (True, ''C'', ''10.0.0.7'', 0)]
      (NetworkManager ''me'' True)) ''B'') = Some 50001 \<and>
   map_option local_tcp_port (peers (connect_all
      [(True, ''A'', ''10.0.0.1'', 51000), (False, ''B'', ''10.0.0.5'', 51000), (True, ''C'', ''10.0.0.7'', 0)]
      (NetworkManager ''me'' True)) ''C'') = Some 50002 \<and>
   map_option local_udp_port (peers (connect_all
      [(True, ''A'', ''10.0.0.1'', 51000), (False, ''B'', ''10.0.0.5'', 51000), (True, ''C'', ''10.0.0.7'', 0)]
      (NetworkManager ''me'' True)) ''A'') = Some 51000 \<and>
   map_option local_udp_port (peers (connect_all
      [(True, ''A'', ''10.0.0.1'', 51000), (False, ''B'', ''10.0.0.5'', 51000), (True, ''C'', ''10.0.0.7'', 0)]
      (NetworkManager ''me'' True)) ''B'') = Some 51001 \<and>
   map_option local_udp_port (peers (connect_all
      [(True, ''A'', ''10.0.0.1'', 51000), (False, ''B'', ''10.0.0.5'', 51000), (True, ''C'', ''10.0.0.7'', 0)]
      (NetworkManager ''me'' True)) ''C'') = Some 51002"
proof -
  let ?calls = "[(True, ''A'', ''10.0.0.1'', 51000), (False, ''B'', ''10.0.0.5'', 51000),
    (True, ''C'', ''10.0.0.7'', 0)] :: (bool \<times> string \<times> string \<times> int) list"
  have d: "distinct (map call_name ?calls)" by simp
  have n: "[0..<length ?calls] = [0, 1, 2]" by (simp add: upt_rec)
  note t = connect_all_allocates_consecutive_ports [OF d, of "''me''" True]
  from t have "map (\<lambda>c. map_option local_tcp_port
             (peers (connect_all ?calls (NetworkManager ''me'' True)) (call_name c))) ?calls =
           map (\<lambda>k. Some (50000 + int k)) [0, 1, 2]"
    unfolding n by (rule conjunct1)
  moreover from t have "map (\<lambda>c. map_option local_udp_port
             (peers (connect_all ?calls (NetworkManager ''me'' True)) (call_name c))) ?calls =
           map (\<lambda>k. Some (51000 + int k)) [0, 1, 2]"
    unfolding n by (rule conjunct1 [OF conjunct2])
  ultimately show ?thesis
    unfolding list.map call_name.simps by simp
qed

text \<open>
  Claim C8. A call of \<^verbatim>\<open>connect_to_peer\<close> for a name that is not registered registers a
  peer whose remote TCP port is the announced port and whose remote UDP port is the
  announced port plus 1000 when the announced port is positive, and whose remote ports
  are 50000 and 51000 otherwise.
\<close>

theorem connect_to_peer_remote_ports:
  assumes "name \<notin> dom (peers m)"
  shows "\<exists>p. peers (fst (connect_to_peer bind_ok name address port m)) name = Some p \<and>
     tcp_port p = (if port > 0 then port else 50000) \<and>
     udp_port p = (if port > 0 then port + 1000 else 51000)"
  by (simp add: connect_to_peer_new [OF assms] start_fields PeerConnection_def)

text \<open>An announced port of 51000 gives 51000 and 52000; an announced port of 0 gives the defaults.\<close>

theorem connect_to_peer_remote_ports_witness:
  "(\<exists>p. peers (fst (connect_to_peer True ''B'' ''10.0.0.5'' 51000 (NetworkManager ''me'' True))) ''B'' =
        Some p \<and> tcp_port p = 51000 \<and> udp_port p = 52000) \<and>
   (\<exists>p. peers (fst (connect_to_peer True ''B'' ''10.0.0.5'' 0 (NetworkManager ''me'' True))) ''B'' =
        Some p \<and> tcp_port p = 50000 \<and> udp_port p = 51000)"
proof -
  have new: "''B'' \<notin> dom (peers (NetworkManager ''me'' True))"
    by (simp add: NetworkManager_def)
  from connect_to_peer_remote_ports [OF new, of True "''10.0.0.5''" 51000]
    connect_to_peer_remote_ports [OF new, of True "''10.0.0.5''" 0]
  show ?thesis by simp
qed

section \<open>Claims about the liveness task\<close>

lemma check_liveness_at_most_once: "length (fst (check_liveness p obs)) \<le> 1"
  by (induction obs) (simp_all add: Let_def)

lemma check_liveness_never_received:
  "\<forall>ob \<in> set obs. obs_rx_guard ob = 0 \<Longrightarrow> fst (check_liveness p obs) = []"
  by (induction obs) (simp_all add: Let_def)

lemma check_liveness_fires:
  "on_disconnect p \<Longrightarrow> i < length obs \<Longrightarrow> \<forall>j \<le> i. obs_running (obs ! j) \<Longrightarrow>
   last_rx_seen (obs ! i) r \<Longrightarrow> 0 < r \<Longrightarrow> 2 < obs_now (obs ! i) - r \<Longrightarrow>
   check_liveness p obs = ([peer_name p], True)"
proof (induction obs arbitrary: i)
  case Nil
  then show ?case by simp
next
  case (Cons ob obs)
  from Cons.prems(3) have run: "obs_running ob" by auto
  show ?case
  proof (cases i)
    case 0
    with Cons.prems run show ?thesis
      by (simp add: last_rx_seen_def Let_def)
  next
    case (Suc k)
    from Cons.prems(3) Suc have later: "\<forall>j \<le> k. obs_running (obs ! j)" by auto
    from Cons.prems Suc have rest: "check_liveness p obs = ([peer_name p], True)"
      by (intro Cons.IH [of k] later) simp_all
    with run Cons.prems(1) show ?thesis
      by (simp add: Let_def)
  qed
qed

text \<open>
  Claim C5. With clock readings taken as real numbers: the liveness task calls the
  disconnect callback at most once, whatever it observes. It never calls it as long as
  \<^verbatim>\<open>last_rx_time\<close> is still zero when the guard reads it. And when a callback is
  registered and, at some pass that the loop reaches with the running flag set, a
  datagram has been received (\<^verbatim>\<open>last_rx_time\<close> is \<open>r > 0\<close>) and more than 2.0 seconds have
  gone by since, the callback is called exactly once, with the peer's name, and the
  function has returned: it polls no more.
\<close>

theorem liveness_one_shot:
  "length (fst (check_liveness p obs)) \<le> 1 \<and>
   ((\<forall>ob \<in> set obs. obs_rx_guard ob = 0) \<longrightarrow> fst (check_liveness p obs) = []) \<and>
   (on_disconnect p \<and> i < length obs \<and> (\<forall>j \<le> i. obs_running (obs ! j)) \<and>
    last_rx_seen (obs ! i) r \<and> 0 < r \<and> 2 < obs_now (obs ! i) - r \<longrightarrow>
      check_liveness p obs = ([peer_name p], True))"
  using check_liveness_at_most_once [of p obs] check_liveness_never_received [of obs p]
    check_liveness_fires [of p i obs r]
  by blast

text \<open>
  Polls at 1 s (nothing received yet), 11 s and 12.5 s after a receive at 10 s, and one
  more at 20 s that is never made; and three polls of a session that never received.
\<close>

theorem liveness_one_shot_witness:
  "check_liveness peer_B [poll 1 0, poll 11 10, poll (25 / 2) 10, poll 20 10] = ([''B''], True) \<and>
   fst (check_liveness peer_B [poll 1 0, poll 5 0, poll 11 0]) = []"
proof -
  let ?obs = "[poll 1 0, poll 11 10, poll (25 / 2) 10, poll 20 10]"
  have cb: "on_disconnect peer_B" and nm: "peer_name peer_B = ''B''"
    by (simp_all add: peer_B_def PeerConnection_def)
  have run: "\<forall>j \<le> 2. obs_running (?obs ! j)"
    by (simp add: poll_def le_Suc_eq numeral_2_eq_2 all_conj_distrib)
  have seen: "last_rx_seen (?obs ! 2) 10" and late: "2 < obs_now (?obs ! 2) - 10"
    by (simp_all add: last_rx_seen_def poll_def)
  have never: "\<forall>ob \<in> set [poll 1 0, poll 5 0, poll 11 0]. obs_rx_guard ob = 0"
    by (simp add: poll_def)
  from liveness_one_shot [of peer_B ?obs 2 10] cb run seen late
  have "check_liveness peer_B ?obs = ([peer_name peer_B], True)"
    by simp
  moreover from liveness_one_shot [of peer_B "[poll 1 0, poll 5 0, poll 11 0]" 0 0] never
  have "fst (check_liveness peer_B [poll 1 0, poll 5 0, poll 11 0]) = []"
    by blast
  ultimately show ?thesis by (simp add: nm)
qed


section \<open>Claims about the TCP control task\<close>

lemma tcp_step_SendHandshake:
  "pc s = SendHandshake \<Longrightarrow> env_ok e \<Longrightarrow>
   connected (peer (tcp_step loads e s)) \<and> pc (tcp_step loads e s) = ReadTest \<and>
   handshakes_sent (tcp_step loads e s) = Suc (handshakes_sent s) \<and>
   responses_consumed (tcp_step loads e s) = responses_consumed s"
  by (simp add: tcp_step_def)

lemma tcp_step_raises_flag:
  "connected (peer (tcp_step loads e s)) \<Longrightarrow> \<not> connected (peer s) \<Longrightarrow>
   pc s = SendHandshake \<and> env_ok e"
  by (cases "pc s")
    (auto simp add: tcp_step_def tcp_handler_def Let_def
      split: if_splits prod.splits json_msg.splits)

lemma tcp_inv_step: "tcp_inv s \<Longrightarrow> tcp_inv (tcp_step loads e s)"
  unfolding tcp_inv_def
  by (cases "pc s")
    (auto simp add: tcp_step_def tcp_handler_def Let_def
      split: if_splits prod.splits json_msg.splits)

lemma tcp_inv_run: "tcp_inv s \<Longrightarrow> tcp_inv (tcp_run loads es s)"
  by (induction es arbitrary: s) (simp_all add: tcp_inv_step)

lemma tcp_inv_init: "\<not> connected p \<Longrightarrow> tcp_inv (tcp_task_init p)"
  by (simp add: tcp_inv_def tcp_task_init_def)

text \<open>
  Claim C3, as the code has it. The task sets \<^verbatim>\<open>connected\<close> to true as soon as the send
  of its handshake has returned and then enters the loop that reads the peer's response,
  with no response consumed by that step. The send of the handshake is the only step
  that raises the flag. So, started on a peer that is not connected, the flag is up only
  after a handshake was sent, and the task never has consumed more responses than it
  has sent handshakes; the flag does not wait for the response.
\<close>

theorem tcp_connected_after_handshake_sent:
  "(pc s = SendHandshake \<and> env_ok e \<longrightarrow>
      connected (peer (tcp_step loads e s)) \<and> pc (tcp_step loads e s) = ReadTest \<and>
      responses_consumed (tcp_step loads e s) = responses_consumed s) \<and>
   (connected (peer (tcp_step loads e s)) \<and> \<not> connected (peer s) \<longrightarrow>
      pc s = SendHandshake \<and> env_ok e) \<and>
   (\<not> connected p \<longrightarrow>
      (connected (peer (tcp_run loads es (tcp_task_init p))) \<longrightarrow>
         0 < handshakes_sent (tcp_run loads es (tcp_task_init p))) \<and>
      responses_consumed (tcp_run loads es (tcp_task_init p)) \<le>
        handshakes_sent (tcp_run loads es (tcp_task_init p)))"
proof (intro conjI impI)
  assume "pc s = SendHandshake \<and> env_ok e"
  then show "connected (peer (tcp_step loads e s))"
    and "pc (tcp_step loads e s) = ReadTest"
    and "responses_consumed (tcp_step loads e s) = responses_consumed s"
    using tcp_step_SendHandshake [of s e loads] by simp_all
next
  assume "connected (peer (tcp_step loads e s)) \<and> \<not> connected (peer s)"
  then show "pc s = SendHandshake" and "env_ok e"
    using tcp_step_raises_flag [of loads e s] by simp_all
next
  assume "\<not> connected p"
  then have inv: "tcp_inv (tcp_run loads es (tcp_task_init p))"
    by (intro tcp_inv_run tcp_inv_init)
  then show "responses_consumed (tcp_run loads es (tcp_task_init p)) \<le>
      handshakes_sent (tcp_run loads es (tcp_task_init p))"
    by (simp add: tcp_inv_def)
  assume "connected (peer (tcp_run loads es (tcp_task_init p)))"
  with inv show "0 < handshakes_sent (tcp_run loads es (tcp_task_init p))"
    by (simp add: tcp_inv_def)
qed

text \<open>The definitions that evaluate a run of the machine on the examples.\<close>

lemmas tcp_eval = tcp_step_def tcp_handler_def tcp_task_init_def tcp_answer_def peer_B_def
  PeerConnection_def loads_example_def split_line_def

text \<open>
  The step that sends the handshake after a successful connect, and a run of five steps
  in which the peer then answers with a line that holds a handshake.
\<close>

theorem tcp_connected_after_handshake_sent_witness:
  "connected (peer (tcp_step loads_example (tcp_answer True True [])
      (tcp_run loads_example [tcp_answer True True [], tcp_answer True True []]
         (tcp_task_init peer_B)))) \<and>
   pc (tcp_step loads_example (tcp_answer True True [])
      (tcp_run loads_example [tcp_answer True True [], tcp_answer True True []]
         (tcp_task_init peer_B))) = ReadTest \<and>
   0 < handshakes_sent (tcp_run loads_example
      [tcp_answer True True [], tcp_answer True True [], tcp_answer True True [],
       tcp_answer True True [], tcp_answer True True [123, 34, 125, 10, 7]]
      (tcp_task_init peer_B)) \<and>
   responses_consumed (tcp_run loads_example
      [tcp_answer True True [], tcp_answer True True [], tcp_answer True True [],
       tcp_answer True True [], tcp_answer True True [123, 34, 125, 10, 7]]
      (tcp_task_init peer_B)) \<le> 1"
proof -
  let ?ok = "tcp_answer True True []"
  let ?s = "tcp_run loads_example [?ok, ?ok] (tcp_task_init peer_B)"
  let ?es = "[?ok, ?ok, ?ok, ?ok, tcp_answer True True [123, 34, 125, 10, 7]]"
  have at_send: "pc ?s = SendHandshake \<and> env_ok ?ok"
    by (simp add: tcp_eval)
  have fresh: "\<not> connected peer_B" "\<not> connected (peer ?s)"
    by (simp_all add: tcp_eval)
  have up: "connected (peer (tcp_run loads_example ?es (tcp_task_init peer_B)))"
    by (simp add: tcp_eval)
  have sent: "handshakes_sent (tcp_run loads_example ?es (tcp_task_init peer_B)) = 1"
    by (simp add: tcp_eval)
  from tcp_connected_after_handshake_sent [of ?s ?ok loads_example peer_B ?es]
    at_send fresh up sent
  show ?thesis by simp
qed


text \<open>
  Claim C3 as stated has \<^verbatim>\<open>connected\<close> false until the peer's handshake response has
  been consumed. After the loop test, a connect and a send that succeed, the task stands
  at the head of the read loop: nothing was received, no response was consumed, and
  \<^verbatim>\<open>connected\<close> is true.
\<close>

theorem tcp_connected_before_response_counterexample:
  "connected (peer (tcp_run loads_example
      [tcp_answer True True [], tcp_answer True True [], tcp_answer True True []]
      (tcp_task_init peer_B))) \<and>
   pc (tcp_run loads_example
      [tcp_answer True True [], tcp_answer True True [], tcp_answer True True []]
      (tcp_task_init peer_B)) = ReadTest \<and>
   responses_consumed (tcp_run loads_example
      [tcp_answer True True [], tcp_answer True True [], tcp_answer True True []]
      (tcp_task_init peer_B)) = 0"
  by (simp add: tcp_eval)

end
